theory Spec2Isabelle
  imports Main "HOL-Library.Sublist" "HOL-Library.Word"
begin

section \<open>The response pane (\<open>response-pane.tsx\<close>)\<close>

text \<open>
  The component \<open>ResponsePane\<close> reads the active request, its metadata and the active
  response from the route loader, and offers four actions: set the response filter, copy
  the body, download the body, and cancel the running request. The actions are modelled as
  functions that return, in program order, the calls they make to the host and to the
  persistence layer; the answers of those collaborators are arguments of the model.
\<close>

subsection \<open>Data\<close>

type_synonym buffer = "8 word list"

text \<open>The fields of a request, of its metadata and of a response that this file reads.\<close>

record request =
  request_id :: string
  name :: string

record request_meta =
  responseFilter :: string
  responseFilterHistory :: "string list"
  previewMode :: string

record response =
  response_id :: string
  parentId :: string
  statusCode :: int
  statusMessage :: string
  elapsedTime :: int
  bytesRead :: int
  bytesContent :: int
  contentType :: string
  headers :: "(string \<times> string) list"
  settingSendCookies :: bool
  settingStoreCookies :: bool
  url :: string
  error :: string

text \<open>The two patches this file sends to the metadata store: \<open>{ responseFilter }\<close> and
  \<open>{ responseFilterHistory }\<close>.\<close>

datatype meta_patch =
    ResponseFilter string
  | ResponseFilterHistory "string list"

text \<open>An error object of the host's output stream.\<close>

datatype node_error = NodeError (code: string) (message: string)

text \<open>What \<open>to.write\<close> is given: a string or a buffer.\<close>

datatype content = Text string | Raw buffer

record dialog_options =
  title :: string
  buttonLabel :: string
  defaultPath :: string

record dialog_result =
  canceled :: bool
  filePath :: "string option"

text \<open>The calls an action makes, as they appear in the source.\<close>

datatype effect =
    PatchRequestMeta string meta_patch
  | ClipboardWriteText string
  | ConsoleWarn string
  | ShowSaveDialog dialog_options
  | GetBodyStream string
  | CreateWriteStream string
  | StreamWrite content
  | StreamEnd
  | ShowError string string node_error

subsection \<open>The filter-history update action\<close>

text \<open>
  \<open>handleSetFilter\<close> (lines 47 to 64). The metadata store is owned by the persistence layer:
  its patch operation \<open>patchRequestMeta\<close> and its read \<open>getByParentId\<close> are parameters, over
  any type of store. The result is the list of patches sent and the store they leave.
  \<open>slice(0, 10)\<close> is \<open>take 10\<close>, \<open>includes\<close> is list membership, \<open>unshift\<close> is \<open>#\<close>; the empty
  string is the only falsy string.
\<close>

definition handleSetFilter ::
  "(string \<Rightarrow> meta_patch \<Rightarrow> 's \<Rightarrow> 's) \<Rightarrow> (string \<Rightarrow> 's \<Rightarrow> request_meta option) \<Rightarrow>
   response option \<Rightarrow> string \<Rightarrow> 's \<Rightarrow> effect list \<times> 's" where
  "handleSetFilter patchRequestMeta getByParentId activeResponse filter_str s =
     (case activeResponse of
        None \<Rightarrow> ([], s)
      | Some resp \<Rightarrow>
          let requestId = parentId resp;
              s1 = patchRequestMeta requestId (ResponseFilter filter_str) s;
              sent = [PatchRequestMeta requestId (ResponseFilter filter_str)]
          in (case getByParentId requestId s1 of
                None \<Rightarrow> (sent, s1)
              | Some meta \<Rightarrow>
                  let history = take 10 (responseFilterHistory meta)
                  in if filter_str = [] \<or> filter_str \<in> set history then (sent, s1)
                     else (sent @ [PatchRequestMeta requestId
                                     (ResponseFilterHistory (filter_str # history))],
                           patchRequestMeta requestId
                             (ResponseFilterHistory (filter_str # history)) s1)))"

text \<open>The history lists an action persisted: the arguments of its history patches.\<close>

fun persistedHistories :: "effect list \<Rightarrow> string list list" where
  "persistedHistories [] = []"
| "persistedHistories (PatchRequestMeta rid (ResponseFilterHistory h) # es) =
     h # persistedHistories es"
| "persistedHistories (e # es) = persistedHistories es"

text \<open>
  Modelled from the spec: the request-metadata patch/read API of the persistence layer
  (\<open>useRequestMetaPatcher\<close>, \<open>models.requestMeta.getByParentId\<close>), which is not part of this
  file. The store maps a request id to its metadata record; a patch overwrites the fields
  it names in the record of that request, and a read returns the record.
\<close>

type_synonym meta_store = "string \<Rightarrow> request_meta option"

fun applyPatch :: "meta_patch \<Rightarrow> request_meta \<Rightarrow> request_meta" where
  "applyPatch (ResponseFilter f) meta = meta\<lparr>responseFilter := f\<rparr>"
| "applyPatch (ResponseFilterHistory h) meta = meta\<lparr>responseFilterHistory := h\<rparr>"

definition storePatch :: "string \<Rightarrow> meta_patch \<Rightarrow> meta_store \<Rightarrow> meta_store" where
  "storePatch requestId p st =
     (case st requestId of
        None \<Rightarrow> st
      | Some meta \<Rightarrow> st(requestId \<mapsto> applyPatch p meta))"

definition storeGet :: "string \<Rightarrow> meta_store \<Rightarrow> request_meta option" where
  "storeGet requestId st = st requestId"

text \<open>A sequence of filter submissions against the modelled store, one after the other.\<close>

fun submitAll :: "response option \<Rightarrow> string list \<Rightarrow> meta_store \<Rightarrow> meta_store" where
  "submitAll activeResponse [] st = st"
| "submitAll activeResponse (f # fs) st =
     submitAll activeResponse fs
       (snd (handleSetFilter storePatch storeGet activeResponse f st))"

subsection \<open>The collaborators of the copy and download actions\<close>

text \<open>
  What \<open>models.response.getBodyStream\<close> answers: nothing, a string, or a readable stream.
  Of a stream, the handler listens to the \<open>data\<close> and \<open>end\<close> events only; the stream is the
  sequence of those events.
\<close>

datatype stream_event = Data buffer | End

datatype body_stream = NoBodyStream | BodyString string | ReadStream "stream_event list"

text \<open>
  The host and the libraries, as the functions the source calls: \<open>mimeExtension\<close> (a string,
  or \<open>false\<close>), \<open>Date.now\<close>, \<open>window.dialog.showSaveDialog\<close>, the body as a buffer and as a
  stream, \<open>Buffer.toString('utf8')\<close>, \<open>jsonPrettify\<close>, and the \<open>error\<close> events that the output
  stream opened on a path raises for what is written to it.
\<close>

record host =
  mimeExtension :: "string \<Rightarrow> string option"
  now :: nat
  showSaveDialog :: "dialog_options \<Rightarrow> dialog_result"
  getBodyBuffer :: "response \<Rightarrow> buffer option"
  getBodyStream :: "response \<Rightarrow> body_stream"
  toStringUtf8 :: "buffer \<Rightarrow> string"
  jsonPrettify :: "string \<Rightarrow> string"
  writeErrors :: "string \<Rightarrow> content \<Rightarrow> node_error list"

subsection \<open>String helpers of the source\<close>

text \<open>\<open>String.prototype.includes\<close>: the argument occurs somewhere in the string.\<close>

fun includesStr :: "string \<Rightarrow> string \<Rightarrow> bool" where
  "includesStr [] sub = (sub = [])"
| "includesStr (c # cs) sub = (prefix sub (c # cs) \<or> includesStr cs sub)"

text \<open>\<open>replace(/ +/g, '_')\<close>: every maximal run of spaces becomes one underscore.\<close>

function replaceSpaces :: "string \<Rightarrow> string" where
  "replaceSpaces [] = []"
| "replaceSpaces (c # cs) =
     (if c = CHR '' '' then CHR ''_'' # replaceSpaces (dropWhile (\<lambda>x. x = CHR '' '') cs)
      else c # replaceSpaces cs)"
  by pat_completeness auto
termination
  by (relation "measure length") (auto simp: length_dropWhile_le less_Suc_eq_le)

text \<open>The decimal text of a number, as a template literal renders \<open>Date.now()\<close>.\<close>

definition digitChar :: "nat \<Rightarrow> char" where
  "digitChar d = ''0123456789'' ! d"

fun showNat :: "nat \<Rightarrow> string" where
  "showNat n = (if n < 10 then [digitChar n] else showNat (n div 10) @ [digitChar (n mod 10)])"

subsection \<open>The copy action\<close>

text \<open>\<open>handleGetResponseBody\<close> (lines 65 to 70): \<open>null\<close> without an active response.\<close>

definition handleGetResponseBody :: "host \<Rightarrow> response option \<Rightarrow> buffer option" where
  "handleGetResponseBody h activeResponse =
     (case activeResponse of
        None \<Rightarrow> None
      | Some resp \<Rightarrow> getBodyBuffer h resp)"

text \<open>\<open>handleCopyResponseToClipboard\<close> (lines 71 to 76). A buffer is truthy, also when empty.\<close>

definition handleCopyResponseToClipboard :: "host \<Rightarrow> response option \<Rightarrow> effect list" where
  "handleCopyResponseToClipboard h activeResponse =
     (case handleGetResponseBody h activeResponse of
        None \<Rightarrow> []
      | Some bodyBuffer \<Rightarrow> [ClipboardWriteText (toStringUtf8 h bodyBuffer)])"

subsection \<open>The download action\<close>

text \<open>The options of the save dialog (lines 86 to 92).\<close>

definition saveDialogOptions :: "host \<Rightarrow> request \<Rightarrow> response \<Rightarrow> dialog_options" where
  "saveDialogOptions h req resp =
     (let extension = (case mimeExtension h (contentType resp) of
                         None \<Rightarrow> ''unknown''
                       | Some ext \<Rightarrow> if ext = [] then ''unknown'' else ext)
      in \<lparr>title = ''Save Response Body'',
          buttonLabel = ''Save'',
          defaultPath = replaceSpaces (name req) @ ''-'' @ showNat (now h) @ ''.'' @ extension\<rparr>)"

text \<open>
  The listener of the \<open>end\<close> event (lines 105 to 123): open the output stream, register the
  error listener, write the prettified text or the raw buffer, end the stream. Each error
  the output stream raises runs the error listener, which shows the dialog.
\<close>

definition onEnd :: "host \<Rightarrow> bool \<Rightarrow> string \<Rightarrow> string \<Rightarrow> buffer list \<Rightarrow> effect list" where
  "onEnd h prettify ctype outputPath dataBuffers =
     (let finalBuffer = concat dataBuffers;
          written = (if prettify \<and> includesStr ctype ''json''
                     then Text (jsonPrettify h (toStringUtf8 h finalBuffer))
                     else Raw finalBuffer)
      in [CreateWriteStream outputPath, StreamWrite written, StreamEnd] @
         map (ShowError ''Save Failed'' ''Failed to save response body'')
           (writeErrors h outputPath written))"

text \<open>The events of the read stream, in order: \<open>data\<close> pushes the chunk onto \<open>dataBuffers\<close>,
  \<open>end\<close> runs the listener above on what was pushed so far.\<close>

fun consume ::
  "host \<Rightarrow> bool \<Rightarrow> string \<Rightarrow> string \<Rightarrow> stream_event list \<Rightarrow> buffer list \<Rightarrow> effect list" where
  "consume h prettify ctype outputPath [] dataBuffers = []"
| "consume h prettify ctype outputPath (Data d # evs) dataBuffers =
     consume h prettify ctype outputPath evs (dataBuffers @ [d])"
| "consume h prettify ctype outputPath (End # evs) dataBuffers =
     onEnd h prettify ctype outputPath dataBuffers @
     consume h prettify ctype outputPath evs dataBuffers"

text \<open>\<open>handleDownloadResponseBody\<close> (lines 80 to 125). A path is truthy when it is present
  and not the empty string; the empty string is no stream either.\<close>

definition handleDownloadResponseBody ::
  "host \<Rightarrow> request option \<Rightarrow> response option \<Rightarrow> bool \<Rightarrow> effect list" where
  "handleDownloadResponseBody h activeRequest activeResponse prettify =
     (case (activeResponse, activeRequest) of
        (Some resp, Some req) \<Rightarrow>
          let opts = saveDialogOptions h req resp;
              answer = showSaveDialog h opts
          in if canceled answer then [ShowSaveDialog opts]
             else [ShowSaveDialog opts, GetBodyStream (response_id resp)] @
                  (case (getBodyStream h resp, filePath answer) of
                     (ReadStream evs, Some outputPath) \<Rightarrow>
                       if outputPath = [] then []
                       else consume h prettify (contentType resp) outputPath evs []
                   | _ \<Rightarrow> [])
      | _ \<Rightarrow> [ConsoleWarn ''Nothing to download''])"

text \<open>The calls that touch the file system, and the error dialog.\<close>

fun isFileWrite :: "effect \<Rightarrow> bool" where
  "isFileWrite (CreateWriteStream p) = True"
| "isFileWrite (StreamWrite c) = True"
| "isFileWrite StreamEnd = True"
| "isFileWrite e = False"

fun isErrorDialog :: "effect \<Rightarrow> bool" where
  "isErrorDialog (ShowError t m e) = True"
| "isErrorDialog e = False"

fun isDialog :: "effect \<Rightarrow> bool" where
  "isDialog (ShowSaveDialog opts) = True"
| "isDialog (ShowError t m e) = True"
| "isDialog e = False"

fun isRead :: "effect \<Rightarrow> bool" where
  "isRead (GetBodyStream rid) = True"
| "isRead e = False"

fun isClipboardWrite :: "effect \<Rightarrow> bool" where
  "isClipboardWrite (ClipboardWriteText t) = True"
| "isClipboardWrite e = False"

subsection \<open>View composition\<close>

text \<open>
  Modelled from the spec: the constant \<open>PREVIEW_MODE_SOURCE\<close> of \<open>common/constants\<close>, which
  is not part of this file; the spec names the mode "source".
\<close>

definition PREVIEW_MODE_SOURCE :: string where
  "PREVIEW_MODE_SOURCE = ''source''"

text \<open>The functions the component hands to its children.\<close>

datatype callback =
    HandleSetFilter
  | HandleGetResponseBody
  | HandleCopyResponseToClipboard
  | HandleDownloadResponseBody
  | CancelRequestById string

text \<open>The execution steps and the timeline are passed through unread.\<close>

type_synonym steps = "string list"
type_synonym timeline = "string list"

record settings =
  disableHtmlPreviewJs :: bool
  disableResponsePreviewLinks :: bool
  editorFontSize :: int

text \<open>What the hooks and helpers outside this file supply to one rendering.\<close>

record pane_env =
  envSettings :: settings
  isExecuting :: bool
  envSteps :: steps
  getTimeline :: "response \<Rightarrow> timeline"
  getSetCookieHeaders :: "(string \<times> string) list \<Rightarrow> (string \<times> string) list"

record timer_props =
  handleCancel :: callback
  timerRequestId :: string
  timerSteps :: steps

record header_props =
  tagStatusCode :: int
  tagStatusMessage :: string
  tagMilliseconds :: int
  tagSteps :: steps
  tagBytesRead :: int
  tagBytesContent :: int
  historyResponseId :: string

record viewer_props =
  viewerKey :: string
  viewerBytes :: int
  viewerContentType :: string
  viewerDisableHtmlPreviewJs :: bool
  viewerDisablePreviewLinks :: bool
  viewerDownload :: callback
  viewerEditorFontSize :: int
  viewerError :: string
  viewerFilter :: string
  viewerFilterHistory :: "string list"
  viewerGetBody :: callback
  viewerPreviewMode :: string
  viewerResponseId :: string
  viewerUpdateFilter :: "callback option"
  viewerUrl :: string

record pane_props =
  paneHeader :: header_props
  dropdownDownload :: callback
  dropdownCopyToClipboard :: callback
  viewer :: viewer_props
  headersTab :: "(string \<times> string) list"
  headersBadge :: "nat option"
  cookiesTab :: "(string \<times> string) list"
  cookiesBadge :: "nat option"
  cookiesSent :: bool
  cookiesStored :: bool
  timelineTab :: timeline
  paneTimer :: "timer_props option"

datatype view =
    BlankPane
  | PlaceholderResponsePane "timer_props option"
  | Pane pane_props

text \<open>Reading a property of a missing object raises a \<open>TypeError\<close>; it is kept with the
  name of the property that was read.\<close>

datatype js_error = TypeError string

text \<open>The timer with its cancel control, mounted while the request is executing.\<close>

definition responseTimer :: "pane_env \<Rightarrow> string \<Rightarrow> request \<Rightarrow> timer_props option" where
  "responseTimer env activeRequestId req =
     (if isExecuting env
      then Some \<lparr>handleCancel = CancelRequestById (request_id req),
                 timerRequestId = activeRequestId,
                 timerSteps = envSteps env\<rparr>
      else None)"

text \<open>The count shown beside a tab title when the list is not empty.\<close>

definition badge :: "'a list \<Rightarrow> nat option" where
  "badge xs = (if length xs > 0 then Some (length xs) else None)"

text \<open>
  The body of \<open>ResponsePane\<close> (lines 36 to 247). Line 78 reads \<open>activeRequest._id\<close> before
  any test of \<open>activeRequest\<close>, so a missing request raises there; the test of line 127 comes
  after it. An empty string is falsy in \<open>||\<close> and in the conditional on the error field.
\<close>

definition ResponsePane ::
  "pane_env \<Rightarrow> string \<Rightarrow> request option \<Rightarrow> request_meta \<Rightarrow> response option \<Rightarrow>
   js_error + view" where
  "ResponsePane env activeRequestId activeRequest activeRequestMeta activeResponse =
     (let filterHistory = responseFilterHistory activeRequestMeta;
          filter_str = responseFilter activeRequestMeta;
          mode = (if previewMode activeRequestMeta = [] then PREVIEW_MODE_SOURCE
                  else previewMode activeRequestMeta)
      in case activeRequest of
           None \<Rightarrow> Inl (TypeError ''_id'')
         | Some req \<Rightarrow>
             (case activeResponse of
                None \<Rightarrow> Inr (PlaceholderResponsePane (responseTimer env activeRequestId req))
              | Some resp \<Rightarrow>
                  let timeline = getTimeline env resp;
                      cookieHeaders = getSetCookieHeaders env (headers resp)
                  in Inr (Pane
                       \<lparr>paneHeader =
                          \<lparr>tagStatusCode = statusCode resp,
                           tagStatusMessage = statusMessage resp,
                           tagMilliseconds = elapsedTime resp,
                           tagSteps = envSteps env,
                           tagBytesRead = bytesRead resp,
                           tagBytesContent = bytesContent resp,
                           historyResponseId = response_id resp\<rparr>,
                        dropdownDownload = HandleDownloadResponseBody,
                        dropdownCopyToClipboard = HandleCopyResponseToClipboard,
                        viewer =
                          \<lparr>viewerKey = response_id resp,
                           viewerBytes = max (bytesContent resp) (bytesRead resp),
                           viewerContentType = contentType resp,
                           viewerDisableHtmlPreviewJs = disableHtmlPreviewJs (envSettings env),
                           viewerDisablePreviewLinks =
                             disableResponsePreviewLinks (envSettings env),
                           viewerDownload = HandleDownloadResponseBody,
                           viewerEditorFontSize = editorFontSize (envSettings env),
                           viewerError = error resp,
                           viewerFilter = filter_str,
                           viewerFilterHistory = filterHistory,
                           viewerGetBody = HandleGetResponseBody,
                           viewerPreviewMode =
                             (if error resp \<noteq> [] then PREVIEW_MODE_SOURCE else mode),
                           viewerResponseId = response_id resp,
                           viewerUpdateFilter =
                             (if error resp \<noteq> [] then None else Some HandleSetFilter),
                           viewerUrl = url resp\<rparr>,
                        headersTab = headers resp,
                        headersBadge = badge (headers resp),
                        cookiesTab = cookieHeaders,
                        cookiesBadge = badge cookieHeaders,
                        cookiesSent = settingSendCookies resp,
                        cookiesStored = settingStoreCookies resp,
                        timelineTab = timeline,
                        paneTimer = responseTimer env activeRequestId req\<rparr>)))"

subsection \<open>Example inputs\<close>

text \<open>A response without an error, its request, and metadata holding a given history.\<close>

definition exampleResponse :: response where
  "exampleResponse =
     \<lparr>response_id = ''res_1'', parentId = ''req_1'', statusCode = 200,
      statusMessage = ''OK'', elapsedTime = 12, bytesRead = 2, bytesContent = 2,
      contentType = ''application/json'', headers = [(''Content-Type'', ''application/json'')],
      settingSendCookies = True, settingStoreCookies = True,
      url = ''http://localhost/items'', error = []\<rparr>"

definition exampleRequest :: request where
  "exampleRequest = \<lparr>request_id = ''req_1'', name = ''List  items''\<rparr>"

definition exampleMeta :: "string list \<Rightarrow> request_meta" where
  "exampleMeta history =
     \<lparr>responseFilter = [], responseFilterHistory = history, previewMode = ''friendly''\<rparr>"

definition exampleStore :: "string list \<Rightarrow> meta_store" where
  "exampleStore history = Map.empty(''req_1'' \<mapsto> exampleMeta history)"

definition tenFilters :: "string list" where
  "tenFilters = [''a'', ''b'', ''c'', ''d'', ''e'', ''f'', ''g'', ''h'', ''i'', ''j'']"

text \<open>The history that eleven submissions leave: the filter \<open>k\<close> before the ten.\<close>

definition elevenFilters :: "string list" where
  "elevenFilters = ''k'' # tenFilters"

text \<open>A host whose dialog answer, body stream and output-stream errors are given.\<close>

definition exampleHost :: "dialog_result \<Rightarrow> body_stream \<Rightarrow> node_error list \<Rightarrow> host" where
  "exampleHost answer stream errs =
     \<lparr>mimeExtension = (\<lambda>ctype. if ctype = ''application/json'' then Some ''json'' else None),
      now = 1700000000000,
      showSaveDialog = (\<lambda>opts. answer),
      getBodyBuffer = (\<lambda>resp. Some [0x7B, 0x7D]),
      getBodyStream = (\<lambda>resp. stream),
      toStringUtf8 = map (\<lambda>b. char_of (unat b)),
      jsonPrettify = (\<lambda>text. text @ [CHR 0x0A]),
      writeErrors = (\<lambda>path written. errs)\<rparr>"

text \<open>The dialog answered with a path, and canceled; a body of two chunks that ends; an
  error of the output stream.\<close>

definition savedAnswer :: dialog_result where
  "savedAnswer = \<lparr>canceled = False, filePath = Some ''/tmp/out.json''\<rparr>"

definition canceledAnswer :: dialog_result where
  "canceledAnswer = \<lparr>canceled = True, filePath = None\<rparr>"

definition exampleStream :: body_stream where
  "exampleStream = ReadStream [Data [0x7B], Data [0x7D], End]"

definition exampleError :: node_error where
  "exampleError = NodeError ''EACCES'' ''permission denied''"

text \<open>A response that carries an error.\<close>

definition failedResponse :: response where
  "failedResponse = exampleResponse\<lparr>error := ''Error: Could not resolve host''\<rparr>"

definition exampleEnv :: pane_env where
  "exampleEnv =
     \<lparr>envSettings = \<lparr>disableHtmlPreviewJs = False, disableResponsePreviewLinks = False,
                      editorFontSize = 11\<rparr>,
      isExecuting = False,
      envSteps = [],
      getTimeline = (\<lambda>resp. []),
      getSetCookieHeaders = filter (\<lambda>hd. fst hd = ''Set-Cookie'')\<rparr>"

section \<open>Properties of the filter-history update action\<close>

subsection \<open>The three ways the action ends with an active response\<close>

lemma handleSetFilter_Some:
  "handleSetFilter P G (Some resp) f s =
     (let rid = parentId resp; s1 = P rid (ResponseFilter f) s in
      case G rid s1 of
        None \<Rightarrow> ([PatchRequestMeta rid (ResponseFilter f)], s1)
      | Some meta \<Rightarrow>
          if f = [] \<or> f \<in> set (take 10 (responseFilterHistory meta))
          then ([PatchRequestMeta rid (ResponseFilter f)], s1)
          else ([PatchRequestMeta rid (ResponseFilter f),
                 PatchRequestMeta rid
                   (ResponseFilterHistory (f # take 10 (responseFilterHistory meta)))],
                P rid (ResponseFilterHistory (f # take 10 (responseFilterHistory meta))) s1))"
  by (simp add: handleSetFilter_def Let_def split: option.splits)

lemma handleSetFilter_unread:
  assumes "G (parentId resp) (P (parentId resp) (ResponseFilter f) s) = None"
  shows "handleSetFilter P G (Some resp) f s =
           ([PatchRequestMeta (parentId resp) (ResponseFilter f)],
            P (parentId resp) (ResponseFilter f) s)"
  using assms by (simp add: handleSetFilter_Some Let_def)

lemma handleSetFilter_skip:
  assumes "G (parentId resp) (P (parentId resp) (ResponseFilter f) s) = Some meta"
    and "f = [] \<or> f \<in> set (take 10 (responseFilterHistory meta))"
  shows "handleSetFilter P G (Some resp) f s =
           ([PatchRequestMeta (parentId resp) (ResponseFilter f)],
            P (parentId resp) (ResponseFilter f) s)"
  using assms by (simp add: handleSetFilter_Some Let_def)

lemma handleSetFilter_insert:
  assumes "G (parentId resp) (P (parentId resp) (ResponseFilter f) s) = Some meta"
    and "f \<noteq> []" and "f \<notin> set (take 10 (responseFilterHistory meta))"
  shows "handleSetFilter P G (Some resp) f s =
           ([PatchRequestMeta (parentId resp) (ResponseFilter f),
             PatchRequestMeta (parentId resp)
               (ResponseFilterHistory (f # take 10 (responseFilterHistory meta)))],
            P (parentId resp)
              (ResponseFilterHistory (f # take 10 (responseFilterHistory meta)))
              (P (parentId resp) (ResponseFilter f) s))"
  using assms by (simp add: handleSetFilter_Some Let_def)

text \<open>The action persists no history, or exactly one: the filter before the first ten
  entries that were read.\<close>

lemma persistedHistories_cases:
  "persistedHistories (fst (handleSetFilter P G activeResponse f s)) = [] \<or>
   (\<exists>resp meta. activeResponse = Some resp \<and>
      G (parentId resp) (P (parentId resp) (ResponseFilter f) s) = Some meta \<and>
      f \<noteq> [] \<and> f \<notin> set (take 10 (responseFilterHistory meta)) \<and>
      persistedHistories (fst (handleSetFilter P G activeResponse f s)) =
        [f # take 10 (responseFilterHistory meta)])"
proof (cases activeResponse)
  case None
  then show ?thesis by (simp add: handleSetFilter_def)
next
  case (Some resp)
  show ?thesis
  proof (cases "G (parentId resp) (P (parentId resp) (ResponseFilter f) s)")
    case None
    with Some show ?thesis by (simp add: handleSetFilter_unread)
  next
    case (Some meta)
    note read = this
    show ?thesis
    proof (cases "f = [] \<or> f \<in> set (take 10 (responseFilterHistory meta))")
      case True
      with read \<open>activeResponse = Some resp\<close> show ?thesis
        by (simp add: handleSetFilter_skip)
    next
      case False
      with read \<open>activeResponse = Some resp\<close> show ?thesis
        by (simp add: handleSetFilter_insert)
    qed
  qed
qed

text \<open>Whatever was stored, a persisted history has at most eleven entries: the ten that
  \<open>slice(0, 10)\<close> keeps and the one that \<open>unshift\<close> adds.\<close>

lemma persistedHistories_length:
  "h \<in> set (persistedHistories (fst (handleSetFilter P G activeResponse f s))) \<Longrightarrow>
   length h \<le> 11"
  using persistedHistories_cases [of P G activeResponse f s] by auto

subsection \<open>The cap of the history\<close>

text \<open>
  Claim C1 says that the history the action persists has at most 10 entries. The source
  truncates the stored history to 10 entries and then puts the new filter in front, so the
  persisted list has 11 entries as soon as 10 are stored: here the stored history is the
  ten filters \<open>a\<close> to \<open>j\<close> and the submitted filter is \<open>k\<close>. That stored history is itself what
  ten submissions leave in a store that started with an empty history, and the eleventh
  submission makes the stored list eleven entries long.
\<close>

theorem handleSetFilter_persists_eleven:
  "persistedHistories
     (fst (handleSetFilter storePatch storeGet (Some exampleResponse) ''k''
            (exampleStore tenFilters))) = [''k'' # tenFilters]
   \<and> length (''k'' # tenFilters) = 11
   \<and> map_option responseFilterHistory
       (submitAll (Some exampleResponse)
          [''j'', ''i'', ''h'', ''g'', ''f'', ''e'', ''d'', ''c'', ''b'', ''a'', ''k'']
          (exampleStore []) ''req_1'') = Some (''k'' # tenFilters)"
  by (simp add: handleSetFilter_def Let_def storePatch_def storeGet_def exampleResponse_def
      exampleStore_def exampleMeta_def tenFilters_def)

subsection \<open>No duplicates and no empty entries\<close>

text \<open>
  Claim C4: when the history that the action reads back has no duplicate, no empty string
  and at most 10 entries, then an empty or already present filter is skipped (the filter
  patch is the only patch sent, so the stored history stays as it is), any other filter is
  persisted in front of that history, and every history the action persists has no
  duplicate and no empty string.
\<close>

theorem handleSetFilter_history_clean:
  assumes "activeResponse = Some resp"
    and "getByParentId (parentId resp)
           (patchRequestMeta (parentId resp) (ResponseFilter f) s) = Some meta"
    and "distinct (responseFilterHistory meta)"
    and "[] \<notin> set (responseFilterHistory meta)"
    and "length (responseFilterHistory meta) \<le> 10"
  shows "(if f = [] \<or> f \<in> set (responseFilterHistory meta)
          then handleSetFilter patchRequestMeta getByParentId activeResponse f s =
                 ([PatchRequestMeta (parentId resp) (ResponseFilter f)],
                  patchRequestMeta (parentId resp) (ResponseFilter f) s)
          else persistedHistories
                 (fst (handleSetFilter patchRequestMeta getByParentId activeResponse f s)) =
                 [f # responseFilterHistory meta])
         \<and> list_all (\<lambda>h. distinct h \<and> [] \<notin> set h)
             (persistedHistories
                (fst (handleSetFilter patchRequestMeta getByParentId activeResponse f s)))"
proof -
  have tk: "take 10 (responseFilterHistory meta) = responseFilterHistory meta"
    using assms(5) by simp
  show ?thesis
  proof (cases "f = [] \<or> f \<in> set (responseFilterHistory meta)")
    case True
    then have "f = [] \<or> f \<in> set (take 10 (responseFilterHistory meta))"
      by (simp only: tk)
    with assms(2)
    have "handleSetFilter patchRequestMeta getByParentId (Some resp) f s =
            ([PatchRequestMeta (parentId resp) (ResponseFilter f)],
             patchRequestMeta (parentId resp) (ResponseFilter f) s)"
      by (rule handleSetFilter_skip)
    with True assms(1) show ?thesis by simp
  next
    case False
    then have "f \<noteq> []" and "f \<notin> set (take 10 (responseFilterHistory meta))"
      by (simp_all only: tk de_Morgan_disj not_False_eq_True)
    with assms(2)
    have "handleSetFilter patchRequestMeta getByParentId (Some resp) f s =
           ([PatchRequestMeta (parentId resp) (ResponseFilter f),
             PatchRequestMeta (parentId resp)
               (ResponseFilterHistory (f # take 10 (responseFilterHistory meta)))],
            patchRequestMeta (parentId resp)
              (ResponseFilterHistory (f # take 10 (responseFilterHistory meta)))
              (patchRequestMeta (parentId resp) (ResponseFilter f) s))"
      by (rule handleSetFilter_insert)
    then have "persistedHistories
                 (fst (handleSetFilter patchRequestMeta getByParentId (Some resp) f s)) =
               [f # responseFilterHistory meta]"
      by (simp add: tk)
    with False assms(1,3,4) show ?thesis by auto
  qed
qed

text \<open>The theorem at a stored history of two entries: a new filter goes in front, and the
  persisted list is free of duplicates and of empty strings.\<close>

theorem handleSetFilter_history_clean_witness:
  "storeGet (parentId exampleResponse)
     (storePatch (parentId exampleResponse) (ResponseFilter ''c'')
        (exampleStore [''a'', ''b''])) =
     Some ((exampleMeta [''a'', ''b''])\<lparr>responseFilter := ''c''\<rparr>)
   \<and> distinct [''a'', ''b''] \<and> [] \<notin> set [''a'', ''b''] \<and> length [''a'', ''b''] \<le> 10
   \<and> persistedHistories
       (fst (handleSetFilter storePatch storeGet (Some exampleResponse) ''c''
              (exampleStore [''a'', ''b'']))) = [[''c'', ''a'', ''b'']]
   \<and> list_all (\<lambda>h. distinct h \<and> [] \<notin> set h)
       (persistedHistories
          (fst (handleSetFilter storePatch storeGet (Some exampleResponse) ''c''
                 (exampleStore [''a'', ''b'']))))"
proof -
  have read: "storeGet (parentId exampleResponse)
     (storePatch (parentId exampleResponse) (ResponseFilter ''c'')
        (exampleStore [''a'', ''b''])) =
     Some ((exampleMeta [''a'', ''b''])\<lparr>responseFilter := ''c''\<rparr>)"
    by (simp add: storeGet_def storePatch_def exampleStore_def exampleResponse_def)
  have hist: "responseFilterHistory ((exampleMeta [''a'', ''b''])\<lparr>responseFilter := ''c''\<rparr>) =
     [''a'', ''b'']"
    by (simp add: exampleMeta_def)
  show ?thesis
    using read
      handleSetFilter_history_clean [where activeResponse = "Some exampleResponse"
        and resp = exampleResponse and getByParentId = storeGet
        and patchRequestMeta = storePatch and f = "''c''"
        and s = "exampleStore [''a'', ''b'']"
        and meta = "(exampleMeta [''a'', ''b''])\<lparr>responseFilter := ''c''\<rparr>"]
    by (simp add: hist)
qed

subsection \<open>Insertion at the front\<close>

text \<open>
  Claim C9 says that a non-empty filter that is not in the stored history is persisted in
  front of the prior entries. Read as "all the prior entries", this fails once more than
  ten are stored: with the eleven entries \<open>k\<close>, \<open>a\<close> to \<open>j\<close> stored and the new filter \<open>l\<close>, the
  persisted list is \<open>l\<close> before the first ten, and the entry \<open>j\<close> is gone.
\<close>

theorem handleSetFilter_drops_beyond_ten:
  "''l'' \<noteq> [] \<and> ''l'' \<notin> set elevenFilters
   \<and> persistedHistories
       (fst (handleSetFilter storePatch storeGet (Some exampleResponse) ''l''
              (exampleStore elevenFilters))) =
     [[''l'', ''k'', ''a'', ''b'', ''c'', ''d'', ''e'', ''f'', ''g'', ''h'', ''i'']]
   \<and> persistedHistories
       (fst (handleSetFilter storePatch storeGet (Some exampleResponse) ''l''
              (exampleStore elevenFilters))) \<noteq> [''l'' # elevenFilters]"
  by (simp add: handleSetFilter_def Let_def storePatch_def storeGet_def exampleResponse_def
      exampleStore_def exampleMeta_def tenFilters_def elevenFilters_def)

text \<open>
  Claim C9, amended: with an active response and metadata read back, a non-empty filter
  that is not in the stored history is persisted as the first element of exactly one
  history list, followed by a prefix of the prior entries in their order; the prefix is
  all of them when fewer than 10 entries are stored.
\<close>

theorem handleSetFilter_unshift:
  assumes "activeResponse = Some resp"
    and "getByParentId (parentId resp)
           (patchRequestMeta (parentId resp) (ResponseFilter f) s) = Some meta"
    and "f \<noteq> []"
    and "f \<notin> set (responseFilterHistory meta)"
  shows "\<exists>kept.
           persistedHistories
             (fst (handleSetFilter patchRequestMeta getByParentId activeResponse f s)) =
             [f # kept]
           \<and> prefix kept (responseFilterHistory meta)
           \<and> (length (responseFilterHistory meta) < 10 \<longrightarrow> kept = responseFilterHistory meta)"
proof -
  have "f \<notin> set (take 10 (responseFilterHistory meta))"
    using assms(4) by (auto dest: in_set_takeD)
  with assms(2,3)
  have "handleSetFilter patchRequestMeta getByParentId (Some resp) f s =
           ([PatchRequestMeta (parentId resp) (ResponseFilter f),
             PatchRequestMeta (parentId resp)
               (ResponseFilterHistory (f # take 10 (responseFilterHistory meta)))],
            patchRequestMeta (parentId resp)
              (ResponseFilterHistory (f # take 10 (responseFilterHistory meta)))
              (patchRequestMeta (parentId resp) (ResponseFilter f) s))"
    by (rule handleSetFilter_insert)
  then have "persistedHistories
               (fst (handleSetFilter patchRequestMeta getByParentId activeResponse f s)) =
             [f # take 10 (responseFilterHistory meta)]"
    using assms(1) by simp
  moreover have "prefix (take 10 (responseFilterHistory meta)) (responseFilterHistory meta)"
    by (rule take_is_prefix)
  moreover have "length (responseFilterHistory meta) < 10 \<longrightarrow>
                 take 10 (responseFilterHistory meta) = responseFilterHistory meta"
    by simp
  ultimately show ?thesis by blast
qed

text \<open>The theorem at a stored history of two entries and the new filter \<open>c\<close>.\<close>

theorem handleSetFilter_unshift_witness:
  "storeGet (parentId exampleResponse)
     (storePatch (parentId exampleResponse) (ResponseFilter ''c'')
        (exampleStore [''a'', ''b''])) =
     Some ((exampleMeta [''a'', ''b''])\<lparr>responseFilter := ''c''\<rparr>)
   \<and> ''c'' \<noteq> [] \<and> ''c'' \<notin> set [''a'', ''b'']
   \<and> persistedHistories
       (fst (handleSetFilter storePatch storeGet (Some exampleResponse) ''c''
              (exampleStore [''a'', ''b'']))) = [[''c'', ''a'', ''b'']]"
proof -
  have read: "storeGet (parentId exampleResponse)
     (storePatch (parentId exampleResponse) (ResponseFilter ''c'')
        (exampleStore [''a'', ''b''])) =
     Some ((exampleMeta [''a'', ''b''])\<lparr>responseFilter := ''c''\<rparr>)"
    by (simp add: storeGet_def storePatch_def exampleStore_def exampleResponse_def)
  have hist: "responseFilterHistory ((exampleMeta [''a'', ''b''])\<lparr>responseFilter := ''c''\<rparr>) =
     [''a'', ''b'']"
    by (simp add: exampleMeta_def)
  show ?thesis
    using read
      handleSetFilter_unshift [where activeResponse = "Some exampleResponse"
        and resp = exampleResponse and getByParentId = storeGet
        and patchRequestMeta = storePatch and f = "''c''"
        and s = "exampleStore [''a'', ''b'']"
        and meta = "(exampleMeta [''a'', ''b''])\<lparr>responseFilter := ''c''\<rparr>"]
    by (auto simp add: hist)
qed

subsection \<open>The filter itself is always persisted\<close>

text \<open>
  Claim C10 says that with an active response the filter string is always patched, and
  that the history patch is skipped for an empty filter, for a duplicate, and when the
  metadata cannot be read back. For a duplicate this fails beyond the tenth stored entry:
  with the eleven entries \<open>k\<close>, \<open>a\<close> to \<open>j\<close> stored, the filter \<open>j\<close> is in the stored history and
  the action still sends a history patch, which moves \<open>j\<close> to the front.
\<close>

theorem handleSetFilter_patches_late_duplicate:
  "''j'' \<in> set elevenFilters
   \<and> fst (handleSetFilter storePatch storeGet (Some exampleResponse) ''j''
            (exampleStore elevenFilters)) =
     [PatchRequestMeta ''req_1'' (ResponseFilter ''j''),
      PatchRequestMeta ''req_1'' (ResponseFilterHistory
        [''j'', ''k'', ''a'', ''b'', ''c'', ''d'', ''e'', ''f'', ''g'', ''h'', ''i''])]"
  by (simp add: handleSetFilter_def Let_def storePatch_def storeGet_def exampleResponse_def
      exampleStore_def exampleMeta_def tenFilters_def elevenFilters_def)

text \<open>
  Claim C10, amended: with an active response, the first patch the action sends is the
  submitted filter string, whatever it is, and the store it leaves is the store after that
  patch or a history patch on top of it. The filter patch is the only patch, and the store
  is left as that patch left it, when the filter is empty, when the metadata read back is
  nothing, and when the filter is among the first 10 entries of the history read back
  (so for every duplicate when at most 10 entries are stored).
\<close>

theorem handleSetFilter_filter_persisted:
  assumes "activeResponse = Some resp"
  shows "(\<exists>rest. fst (handleSetFilter patchRequestMeta getByParentId activeResponse f s) =
            PatchRequestMeta (parentId resp) (ResponseFilter f) # rest)
         \<and> (snd (handleSetFilter patchRequestMeta getByParentId activeResponse f s) =
              patchRequestMeta (parentId resp) (ResponseFilter f) s
            \<or> (\<exists>h. snd (handleSetFilter patchRequestMeta getByParentId activeResponse f s) =
                 patchRequestMeta (parentId resp) (ResponseFilterHistory h)
                   (patchRequestMeta (parentId resp) (ResponseFilter f) s)))
         \<and> (f = []
              \<or> getByParentId (parentId resp)
                   (patchRequestMeta (parentId resp) (ResponseFilter f) s) = None
              \<or> (\<exists>meta. getByParentId (parentId resp)
                     (patchRequestMeta (parentId resp) (ResponseFilter f) s) = Some meta
                   \<and> f \<in> set (take 10 (responseFilterHistory meta)))
            \<longrightarrow> handleSetFilter patchRequestMeta getByParentId activeResponse f s =
                  ([PatchRequestMeta (parentId resp) (ResponseFilter f)],
                   patchRequestMeta (parentId resp) (ResponseFilter f) s))"
  using assms by (auto simp add: handleSetFilter_Some Let_def split: option.splits)

text \<open>The theorem at a duplicate: the filter \<open>a\<close> is stored as the active filter and the
  history \<open>a\<close>, \<open>b\<close> stays as it was.\<close>

theorem handleSetFilter_filter_persisted_witness:
  "fst (handleSetFilter storePatch storeGet (Some exampleResponse) ''a''
          (exampleStore [''a'', ''b''])) = [PatchRequestMeta ''req_1'' (ResponseFilter ''a'')]
   \<and> map_option responseFilter
       (snd (handleSetFilter storePatch storeGet (Some exampleResponse) ''a''
          (exampleStore [''a'', ''b''])) ''req_1'') = Some ''a''
   \<and> map_option responseFilterHistory
       (snd (handleSetFilter storePatch storeGet (Some exampleResponse) ''a''
          (exampleStore [''a'', ''b''])) ''req_1'') = Some [''a'', ''b'']"
proof -
  have read: "storeGet (parentId exampleResponse)
     (storePatch (parentId exampleResponse) (ResponseFilter ''a'')
        (exampleStore [''a'', ''b''])) =
     Some ((exampleMeta [''a'', ''b''])\<lparr>responseFilter := ''a''\<rparr>)"
    by (simp add: storeGet_def storePatch_def exampleStore_def exampleResponse_def)
  have hist: "responseFilterHistory ((exampleMeta [''a'', ''b''])\<lparr>responseFilter := ''a''\<rparr>) =
     [''a'', ''b'']"
    by (simp add: exampleMeta_def)
  have "handleSetFilter storePatch storeGet (Some exampleResponse) ''a''
          (exampleStore [''a'', ''b'']) =
        ([PatchRequestMeta (parentId exampleResponse) (ResponseFilter ''a'')],
         storePatch (parentId exampleResponse) (ResponseFilter ''a'')
           (exampleStore [''a'', ''b'']))"
    using handleSetFilter_filter_persisted [where activeResponse = "Some exampleResponse"
        and resp = exampleResponse and getByParentId = storeGet
        and patchRequestMeta = storePatch and f = "''a''"
        and s = "exampleStore [''a'', ''b'']"] read hist
    by simp
  then show ?thesis
    by (simp add: storePatch_def exampleStore_def exampleResponse_def exampleMeta_def)
qed

section \<open>Properties of the download and copy actions\<close>

subsection \<open>The source's string test\<close>

text \<open>\<open>includesStr\<close> is the contiguous-sublist relation of the library.\<close>

lemma includesStr_sublist: "includesStr s sub \<longleftrightarrow> sublist sub s"
  by (induction s) (auto simp: sublist_Cons_right)

subsection \<open>A download that reaches the end of the body stream\<close>

lemma consume_complete:
  "consume h prettify ctype outputPath (map Data chunks @ [End]) dataBuffers =
     onEnd h prettify ctype outputPath (dataBuffers @ chunks)"
  by (induction chunks arbitrary: dataBuffers) simp_all

lemma download_Some:
  "handleDownloadResponseBody h (Some req) (Some resp) prettify =
     (if canceled (showSaveDialog h (saveDialogOptions h req resp))
      then [ShowSaveDialog (saveDialogOptions h req resp)]
      else [ShowSaveDialog (saveDialogOptions h req resp), GetBodyStream (response_id resp)] @
           (case (getBodyStream h resp,
                  filePath (showSaveDialog h (saveDialogOptions h req resp))) of
              (ReadStream evs, Some outputPath) \<Rightarrow>
                if outputPath = [] then []
                else consume h prettify (contentType resp) outputPath evs []
            | _ \<Rightarrow> []))"
  by (simp add: handleDownloadResponseBody_def Let_def)

lemma download_completed:
  assumes "\<not> canceled (showSaveDialog h (saveDialogOptions h req resp))"
    and "filePath (showSaveDialog h (saveDialogOptions h req resp)) = Some outputPath"
    and "outputPath \<noteq> []"
    and "getBodyStream h resp = ReadStream (map Data chunks @ [End])"
  shows "handleDownloadResponseBody h (Some req) (Some resp) prettify =
           [ShowSaveDialog (saveDialogOptions h req resp), GetBodyStream (response_id resp)] @
           onEnd h prettify (contentType resp) outputPath chunks"
  using assms by (simp add: download_Some consume_complete)

lemma filter_isFileWrite_onEnd:
  "filter isFileWrite (onEnd h prettify ctype outputPath dataBuffers) =
     [CreateWriteStream outputPath,
      StreamWrite (if prettify \<and> includesStr ctype ''json''
                   then Text (jsonPrettify h (toStringUtf8 h (concat dataBuffers)))
                   else Raw (concat dataBuffers)),
      StreamEnd]"
  by (simp add: onEnd_def Let_def filter_map o_def)

lemma filter_isErrorDialog_onEnd:
  "filter isErrorDialog (onEnd h prettify ctype outputPath dataBuffers) =
     map (ShowError ''Save Failed'' ''Failed to save response body'')
       (writeErrors h outputPath
          (if prettify \<and> includesStr ctype ''json''
           then Text (jsonPrettify h (toStringUtf8 h (concat dataBuffers)))
           else Raw (concat dataBuffers)))"
  by (simp add: onEnd_def Let_def filter_map o_def)

subsection \<open>The example host, evaluated\<close>

lemma decode_braces: "map (\<lambda>b. char_of (unat b)) [0x7B, 0x7D :: 8 word] = ''{}''"
  by code_simp

lemma showNat_now: "showNat 1700000000000 = ''1700000000000''"
  by (simp add: digitChar_def)

lemma example_host_simps:
  "showSaveDialog (exampleHost answer stream errs) opts = answer"
  "getBodyStream (exampleHost answer stream errs) resp = stream"
  "writeErrors (exampleHost answer stream errs) path written = errs"
  "jsonPrettify (exampleHost answer stream errs) text = text @ [CHR 0x0A]"
  "toStringUtf8 (exampleHost answer stream errs) [0x7B, 0x7D] = ''{}''"
  "getBodyBuffer (exampleHost answer stream errs) resp = Some [0x7B, 0x7D]"
  "now (exampleHost answer stream errs) = 1700000000000"
  "mimeExtension (exampleHost answer stream errs) ''application/json'' = Some ''json''"
  using decode_braces by (simp_all add: exampleHost_def)

subsection \<open>What is written\<close>

text \<open>
  Claim C2: when the dialog is answered with a path and the body stream delivers its chunks
  and ends, the download opens the chosen file, writes to it, and ends it; what it writes
  is \<open>jsonPrettify\<close> of the UTF-8 text of the accumulated body when \<open>prettify\<close> is set and the
  content type contains \<open>json\<close>, and the accumulated bytes themselves otherwise.
\<close>

theorem download_writes_pretty_or_raw:
  assumes "activeRequest = Some req" and "activeResponse = Some resp"
    and "\<not> canceled (showSaveDialog h (saveDialogOptions h req resp))"
    and "filePath (showSaveDialog h (saveDialogOptions h req resp)) = Some outputPath"
    and "outputPath \<noteq> []"
    and "getBodyStream h resp = ReadStream (map Data chunks @ [End])"
  shows "filter isFileWrite
           (handleDownloadResponseBody h activeRequest activeResponse prettify) =
           [CreateWriteStream outputPath,
            StreamWrite (if prettify \<and> includesStr (contentType resp) ''json''
                         then Text (jsonPrettify h (toStringUtf8 h (concat chunks)))
                         else Raw (concat chunks)),
            StreamEnd]"
  using download_completed [OF assms(3-6), of prettify] assms(1,2)
  by (simp add: filter_isFileWrite_onEnd)

text \<open>The theorem at a JSON response of two chunks, with and without \<open>prettify\<close>.\<close>

theorem download_writes_pretty_or_raw_witness:
  "\<not> canceled (showSaveDialog (exampleHost savedAnswer exampleStream [])
        (saveDialogOptions (exampleHost savedAnswer exampleStream [])
           exampleRequest exampleResponse))
   \<and> filePath (showSaveDialog (exampleHost savedAnswer exampleStream [])
        (saveDialogOptions (exampleHost savedAnswer exampleStream [])
           exampleRequest exampleResponse)) = Some ''/tmp/out.json''
   \<and> getBodyStream (exampleHost savedAnswer exampleStream []) exampleResponse =
       ReadStream (map Data [[0x7B], [0x7D]] @ [End])
   \<and> filter isFileWrite
       (handleDownloadResponseBody (exampleHost savedAnswer exampleStream [])
          (Some exampleRequest) (Some exampleResponse) True) =
       [CreateWriteStream ''/tmp/out.json'', StreamWrite (Text (''{}'' @ [CHR 0x0A])), StreamEnd]
   \<and> filter isFileWrite
       (handleDownloadResponseBody (exampleHost savedAnswer exampleStream [])
          (Some exampleRequest) (Some exampleResponse) False) =
       [CreateWriteStream ''/tmp/out.json'', StreamWrite (Raw [0x7B, 0x7D]), StreamEnd]"
proof -
  let ?h = "exampleHost savedAnswer exampleStream []"
  have a: "\<not> canceled (showSaveDialog ?h (saveDialogOptions ?h exampleRequest exampleResponse))"
    by (simp add: example_host_simps savedAnswer_def)
  have b: "filePath (showSaveDialog ?h (saveDialogOptions ?h exampleRequest exampleResponse)) =
             Some ''/tmp/out.json''"
    by (simp add: example_host_simps savedAnswer_def)
  have c: "''/tmp/out.json'' \<noteq> []" by simp
  have d: "getBodyStream ?h exampleResponse = ReadStream (map Data [[0x7B], [0x7D]] @ [End])"
    by (simp add: example_host_simps exampleStream_def)
  have j: "includesStr (contentType exampleResponse) ''json''"
    by (simp add: exampleResponse_def)
  show ?thesis
    using a b d
      download_writes_pretty_or_raw [OF refl refl a b c d, of True]
      download_writes_pretty_or_raw [OF refl refl a b c d, of False]
    by (simp add: j example_host_simps)
qed

subsection \<open>The canceled dialog\<close>

text \<open>
  Claim C6: when the user cancels the save dialog, the dialog is the only call the download
  makes: no output stream is created and nothing is written.
\<close>

theorem download_canceled_writes_nothing:
  assumes "activeRequest = Some req" and "activeResponse = Some resp"
    and "canceled (showSaveDialog h (saveDialogOptions h req resp))"
  shows "handleDownloadResponseBody h activeRequest activeResponse prettify =
           [ShowSaveDialog (saveDialogOptions h req resp)]
         \<and> filter isFileWrite
             (handleDownloadResponseBody h activeRequest activeResponse prettify) = []"
  using assms by (simp add: download_Some)

text \<open>The theorem at a canceled dialog for the example request and response.\<close>

theorem download_canceled_writes_nothing_witness:
  "canceled (showSaveDialog (exampleHost canceledAnswer exampleStream [])
        (saveDialogOptions (exampleHost canceledAnswer exampleStream [])
           exampleRequest exampleResponse))
   \<and> handleDownloadResponseBody (exampleHost canceledAnswer exampleStream [])
        (Some exampleRequest) (Some exampleResponse) True =
      [ShowSaveDialog \<lparr>title = ''Save Response Body'', buttonLabel = ''Save'',
         defaultPath = ''List_items-1700000000000.json''\<rparr>]
   \<and> filter isFileWrite
       (handleDownloadResponseBody (exampleHost canceledAnswer exampleStream [])
          (Some exampleRequest) (Some exampleResponse) True) = []"
proof -
  let ?h = "exampleHost canceledAnswer exampleStream []"
  have a: "canceled (showSaveDialog ?h (saveDialogOptions ?h exampleRequest exampleResponse))"
    by (simp add: example_host_simps canceledAnswer_def)
  have o: "saveDialogOptions ?h exampleRequest exampleResponse =
      \<lparr>title = ''Save Response Body'', buttonLabel = ''Save'',
         defaultPath = ''List_items-1700000000000.json''\<rparr>"
    by (simp add: saveDialogOptions_def example_host_simps exampleRequest_def
        exampleResponse_def showNat_now del: showNat.simps)
  show ?thesis
    using a download_canceled_writes_nothing [OF refl refl a, of True]
    by (simp add: o)
qed

subsection \<open>Errors of the output stream\<close>

text \<open>
  Claim C7: in a download that writes, the error dialogs shown are exactly one per error
  that the output stream raises, each with the title \<open>Save Failed\<close>, the message
  \<open>Failed to save response body\<close> and that error.
\<close>

theorem download_write_error_dialog:
  assumes "activeRequest = Some req" and "activeResponse = Some resp"
    and "\<not> canceled (showSaveDialog h (saveDialogOptions h req resp))"
    and "filePath (showSaveDialog h (saveDialogOptions h req resp)) = Some outputPath"
    and "outputPath \<noteq> []"
    and "getBodyStream h resp = ReadStream (map Data chunks @ [End])"
  shows "filter isErrorDialog
           (handleDownloadResponseBody h activeRequest activeResponse prettify) =
           map (ShowError ''Save Failed'' ''Failed to save response body'')
             (writeErrors h outputPath
                (if prettify \<and> includesStr (contentType resp) ''json''
                 then Text (jsonPrettify h (toStringUtf8 h (concat chunks)))
                 else Raw (concat chunks)))"
  using download_completed [OF assms(3-6), of prettify] assms(1,2)
  by (simp add: filter_isErrorDialog_onEnd)

text \<open>The theorem at an output stream that raises one permission error.\<close>

theorem download_write_error_dialog_witness:
  "\<not> canceled (showSaveDialog (exampleHost savedAnswer exampleStream [exampleError])
        (saveDialogOptions (exampleHost savedAnswer exampleStream [exampleError])
           exampleRequest exampleResponse))
   \<and> filePath (showSaveDialog (exampleHost savedAnswer exampleStream [exampleError])
        (saveDialogOptions (exampleHost savedAnswer exampleStream [exampleError])
           exampleRequest exampleResponse)) = Some ''/tmp/out.json''
   \<and> getBodyStream (exampleHost savedAnswer exampleStream [exampleError]) exampleResponse =
       ReadStream (map Data [[0x7B], [0x7D]] @ [End])
   \<and> writeErrors (exampleHost savedAnswer exampleStream [exampleError]) ''/tmp/out.json''
       (Raw [0x7B, 0x7D]) = [exampleError]
   \<and> filter isErrorDialog
       (handleDownloadResponseBody (exampleHost savedAnswer exampleStream [exampleError])
          (Some exampleRequest) (Some exampleResponse) False) =
       [ShowError ''Save Failed'' ''Failed to save response body'' exampleError]"
proof -
  let ?h = "exampleHost savedAnswer exampleStream [exampleError]"
  have a: "\<not> canceled (showSaveDialog ?h (saveDialogOptions ?h exampleRequest exampleResponse))"
    by (simp add: example_host_simps savedAnswer_def)
  have b: "filePath (showSaveDialog ?h (saveDialogOptions ?h exampleRequest exampleResponse)) =
             Some ''/tmp/out.json''"
    by (simp add: example_host_simps savedAnswer_def)
  have c: "''/tmp/out.json'' \<noteq> []" by simp
  have d: "getBodyStream ?h exampleResponse = ReadStream (map Data [[0x7B], [0x7D]] @ [End])"
    by (simp add: example_host_simps exampleStream_def)
  show ?thesis
    using a b d download_write_error_dialog [OF refl refl a b c d, of False]
    by (simp add: example_host_simps)
qed

subsection \<open>No body stream\<close>

text \<open>
  Claim C8: when the persistence layer answers the request for the body stream with nothing
  or with a string, the download stops after that request: nothing is written and no error
  dialog is shown.
\<close>

theorem download_without_stream_noop:
  assumes "activeRequest = Some req" and "activeResponse = Some resp"
    and "\<not> canceled (showSaveDialog h (saveDialogOptions h req resp))"
    and "getBodyStream h resp = NoBodyStream \<or> getBodyStream h resp = BodyString str"
  shows "handleDownloadResponseBody h activeRequest activeResponse prettify =
           [ShowSaveDialog (saveDialogOptions h req resp), GetBodyStream (response_id resp)]
         \<and> filter isFileWrite
             (handleDownloadResponseBody h activeRequest activeResponse prettify) = []
         \<and> filter isErrorDialog
             (handleDownloadResponseBody h activeRequest activeResponse prettify) = []"
  using assms by (auto simp add: download_Some)

text \<open>The theorem at a missing stream and at a string in place of a stream.\<close>

theorem download_without_stream_noop_witness:
  "\<not> canceled (showSaveDialog (exampleHost savedAnswer NoBodyStream [exampleError])
        (saveDialogOptions (exampleHost savedAnswer NoBodyStream [exampleError])
           exampleRequest exampleResponse))
   \<and> getBodyStream (exampleHost savedAnswer NoBodyStream [exampleError]) exampleResponse =
       NoBodyStream
   \<and> filter isFileWrite
       (handleDownloadResponseBody (exampleHost savedAnswer NoBodyStream [exampleError])
          (Some exampleRequest) (Some exampleResponse) True) = []
   \<and> filter isErrorDialog
       (handleDownloadResponseBody (exampleHost savedAnswer NoBodyStream [exampleError])
          (Some exampleRequest) (Some exampleResponse) True) = []
   \<and> filter isFileWrite
       (handleDownloadResponseBody (exampleHost savedAnswer (BodyString ''{}'') [exampleError])
          (Some exampleRequest) (Some exampleResponse) True) = []
   \<and> filter isErrorDialog
       (handleDownloadResponseBody (exampleHost savedAnswer (BodyString ''{}'') [exampleError])
          (Some exampleRequest) (Some exampleResponse) True) = []"
proof -
  let ?h = "exampleHost savedAnswer NoBodyStream [exampleError]"
  let ?k = "exampleHost savedAnswer (BodyString ''{}'') [exampleError]"
  have a: "\<not> canceled (showSaveDialog ?h (saveDialogOptions ?h exampleRequest exampleResponse))"
    by (simp add: example_host_simps savedAnswer_def)
  have b: "getBodyStream ?h exampleResponse = NoBodyStream"
    by (simp add: example_host_simps)
  have a': "\<not> canceled (showSaveDialog ?k (saveDialogOptions ?k exampleRequest exampleResponse))"
    by (simp add: example_host_simps savedAnswer_def)
  have b': "getBodyStream ?k exampleResponse = BodyString ''{}''"
    by (simp add: example_host_simps)
  show ?thesis
    using a b
      download_without_stream_noop [OF refl refl a disjI1 [OF b], of True]
      download_without_stream_noop [OF refl refl a' disjI2 [OF b'], of True]
    by simp
qed

section \<open>Properties of the view\<close>

subsection \<open>A response with an error\<close>

text \<open>
  Claim C3: for an active response whose error field is a non-empty string, whatever the
  request metadata holds, the pane is rendered with a viewer whose preview mode is
  \<open>PREVIEW_MODE_SOURCE\<close> (the mode "source") and which is given no filter-update
  callback.
\<close>

theorem ResponsePane_error_forces_source:
  assumes "activeRequest = Some req" and "activeResponse = Some resp"
    and "error resp \<noteq> []"
  shows "\<exists>p. ResponsePane env activeRequestId activeRequest activeRequestMeta activeResponse =
               Inr (Pane p)
             \<and> viewerPreviewMode (viewer p) = PREVIEW_MODE_SOURCE
             \<and> viewerUpdateFilter (viewer p) = None"
  using assms by (simp add: ResponsePane_def Let_def)

text \<open>The theorem at a failed response, with the preview mode \<open>friendly\<close> stored.\<close>

theorem ResponsePane_error_forces_source_witness:
  "error failedResponse \<noteq> []
   \<and> previewMode (exampleMeta []) = ''friendly''
   \<and> (case ResponsePane exampleEnv ''req_1'' (Some exampleRequest) (exampleMeta [])
             (Some failedResponse) of
        Inr (Pane p) \<Rightarrow>
          viewerPreviewMode (viewer p) = ''source'' \<and> viewerUpdateFilter (viewer p) = None
      | _ \<Rightarrow> False)"
proof -
  have e: "error failedResponse \<noteq> []"
    by (simp add: failedResponse_def)
  show ?thesis
    using e
      ResponsePane_error_forces_source [OF refl refl e, where env = exampleEnv
        and activeRequestId = "''req_1''" and req = exampleRequest
        and activeRequestMeta = "exampleMeta []"]
    by (auto simp add: exampleMeta_def PREVIEW_MODE_SOURCE_def)
qed

subsection \<open>No active response\<close>

text \<open>
  With an active request and no active response the pane renders the placeholder; and with
  no active response, whether or not a request is active, the download action only logs a
  warning (no dialog, no read, no write) and the copy action does nothing (no clipboard
  write).
\<close>

lemma no_response_placeholder_and_noops:
  assumes "activeResponse = None"
  shows "(activeRequest = Some req \<longrightarrow>
            ResponsePane env activeRequestId activeRequest activeRequestMeta activeResponse =
              Inr (PlaceholderResponsePane (responseTimer env activeRequestId req)))
         \<and> handleDownloadResponseBody h activeRequest activeResponse prettify =
             [ConsoleWarn ''Nothing to download'']
         \<and> filter (\<lambda>e. isDialog e \<or> isRead e \<or> isFileWrite e)
             (handleDownloadResponseBody h activeRequest activeResponse prettify) = []
         \<and> handleCopyResponseToClipboard h activeResponse = []"
  using assms
  by (simp add: ResponsePane_def Let_def handleDownloadResponseBody_def
      handleCopyResponseToClipboard_def handleGetResponseBody_def split: option.splits)

text \<open>The lemma at the example request with no response.\<close>

lemma no_response_placeholder_and_noops_example:
  "ResponsePane exampleEnv ''req_1'' (Some exampleRequest) (exampleMeta []) None =
     Inr (PlaceholderResponsePane None)
   \<and> handleDownloadResponseBody (exampleHost savedAnswer exampleStream [])
       (Some exampleRequest) None True = [ConsoleWarn ''Nothing to download'']
   \<and> handleCopyResponseToClipboard (exampleHost savedAnswer exampleStream []) None = []"
  using no_response_placeholder_and_noops [OF refl,
      where activeRequest = "Some exampleRequest" and req = exampleRequest
      and env = exampleEnv and activeRequestId = "''req_1''"
      and activeRequestMeta = "exampleMeta []"
      and h = "exampleHost savedAnswer exampleStream []" and prettify = True]
  by (simp add: responseTimer_def exampleEnv_def)


end
